theory Spec2Isabelle
  imports Complex_Main
begin

section \<open>Python values and built-ins used by app.py\<close>

text \<open>
  A Python \<open>str\<close> is modelled as a \<open>string\<close>: the list of its code points, each below
  256 (Isabelle's 8-bit \<open>char\<close>). Values that come out of \<open>response.json()\<close> are
  modelled by \<open>json\<close>; a Python \<open>dict\<close> is an association list with unique keys in
  insertion order. Floats are abstracted to reals (NaN and the infinities are left out).
\<close>

datatype json =
    JNull
  | JBool bool
  | JInt int
  | JFloat real
  | JStr string
  | JArr "json list"
  | JObj "(string \<times> json) list"

type_synonym 'v dict = "(string \<times> 'v) list"

text \<open>\<open>isinstance(v, dict)\<close>\<close>

fun is_dict :: "json \<Rightarrow> bool" where
  "is_dict (JObj d) = True"
| "is_dict v = False"

text \<open>\<open>type(v).__name__\<close>, as it appears in the text of an AttributeError.\<close>

fun type_name :: "json \<Rightarrow> string" where
  "type_name JNull = ''NoneType''"
| "type_name (JBool b) = ''bool''"
| "type_name (JInt i) = ''int''"
| "type_name (JFloat r) = ''float''"
| "type_name (JStr s) = ''str''"
| "type_name (JArr xs) = ''list''"
| "type_name (JObj d) = ''dict''"

text \<open>
  \<open>d[k] = v\<close> on a dict: an existing key keeps its position and takes the new value,
  a new key goes to the end.
\<close>

fun dict_set :: "'v dict \<Rightarrow> string \<Rightarrow> 'v \<Rightarrow> 'v dict" where
  "dict_set [] k v = [(k, v)]"
| "dict_set ((k', v') # d) k v =
     (if k' = k then (k, v) # d else (k', v') # dict_set d k v)"

text \<open>\<open>d.get(k, default)\<close>\<close>

definition dict_get :: "'v dict \<Rightarrow> string \<Rightarrow> 'v \<Rightarrow> 'v" where
  "dict_get d k dflt = (case map_of d k of None \<Rightarrow> dflt | Some v \<Rightarrow> v)"

text \<open>
  \<open>str.isspace\<close> on one code point below 256: TAB, LF, VT, FF, CR, the separators
  0x1C to 0x1F, the space, NEL (0x85) and the no-break space (0xA0).
\<close>

definition isspace :: "char \<Rightarrow> bool" where
  "isspace c =
     (let n = (of_char c :: nat)
      in (9 \<le> n \<and> n \<le> 13) \<or> (28 \<le> n \<and> n \<le> 32) \<or> n = 133 \<or> n = 160)"

text \<open>\<open>s.strip()\<close>: leading and trailing whitespace removed.\<close>

definition str_strip :: "string \<Rightarrow> string" where
  "str_strip s = rev (dropWhile isspace (rev (dropWhile isspace s)))"

text \<open>
  \<open>s.split(sep)\<close> for a one-character separator: the pieces between the occurrences of
  the separator, empty pieces included; the result is never the empty list.
\<close>

fun str_split :: "string \<Rightarrow> char \<Rightarrow> string list" where
  "str_split [] sep = [[]]"
| "str_split (c # cs) sep =
     (if c = sep then [] # str_split cs sep
      else (case str_split cs sep of
              [] \<Rightarrow> [[c]]
            | t # ts \<Rightarrow> (c # t) # ts))"

text \<open>
  \<open>int(s)\<close> on a str whose code points are below 256, base 10. The whitespace that
  \<open>int\<close> drops at both ends is not that of \<open>str.strip\<close>: the separators 0x1C to 0x1F
  are kept, and a text that holds one is refused. After the whitespace come an optional
  sign and the decimal digits, where a single underscore may stand between two digits.
  A text with more than 4300 digits is refused (the interpreter's default limit for the
  conversion). \<open>None\<close> stands for the ValueError that \<open>int\<close> raises. Below 256 the
  decimal digits are \<open>0\<close> to \<open>9\<close> only; the decimal digits of other scripts, which
  \<open>int\<close> accepts too, lie above 255 and outside this model of strings.
\<close>

definition int_space :: "char \<Rightarrow> bool" where
  "int_space c =
     (let n = (of_char c :: nat)
      in (9 \<le> n \<and> n \<le> 13) \<or> n = 32 \<or> n = 133 \<or> n = 160)"

definition int_strip :: "string \<Rightarrow> string" where
  "int_strip s = rev (dropWhile int_space (rev (dropWhile int_space s)))"

definition is_digit :: "char \<Rightarrow> bool" where
  "is_digit c = (48 \<le> (of_char c :: nat) \<and> (of_char c :: nat) \<le> 57)"

definition digit_value :: "char \<Rightarrow> int" where
  "digit_value c = int (of_char c) - 48"

fun int_digits :: "int \<Rightarrow> string \<Rightarrow> int option" where
  "int_digits acc [] = Some acc"
| "int_digits acc [c] =
     (if is_digit c then Some (acc * 10 + digit_value c) else None)"
| "int_digits acc (c # d # cs) =
     (if is_digit c then int_digits (acc * 10 + digit_value c) (d # cs)
      else if c = CHR ''_'' \<and> is_digit d then int_digits acc (d # cs)
      else None)"

definition int_unsigned :: "string \<Rightarrow> int option" where
  "int_unsigned s =
     (case s of
        [] \<Rightarrow> None
      | c # cs \<Rightarrow>
          if is_digit c \<and> length (filter is_digit s) \<le> 4300 then int_digits 0 s
          else None)"

definition py_int :: "string \<Rightarrow> int option" where
  "py_int s =
     (case int_strip s of
        [] \<Rightarrow> None
      | c # cs \<Rightarrow>
          if c = CHR ''-'' then map_option uminus (int_unsigned cs)
          else if c = CHR ''+'' then int_unsigned cs
          else int_unsigned (c # cs))"

text \<open>\<open>str(i)\<close> on an int: the decimal digits, after a minus sign when \<open>i\<close> is negative.\<close>

function str_nat :: "nat \<Rightarrow> string" where
  "str_nat n =
     (if n < 10 then [''0123456789'' ! n]
      else str_nat (n div 10) @ [''0123456789'' ! (n mod 10)])"
  by pat_completeness auto
termination
  by (relation "measure id") auto

declare str_nat.simps [simp del]

definition str_int :: "int \<Rightarrow> string" where
  "str_int i = (if i < 0 then CHR ''-'' # str_nat (nat (- i)) else str_nat (nat i))"

text \<open>
  A naive \<open>datetime\<close>, as \<open>datetime.now()\<close> returns it: a date and time of the local
  calendar with no time zone. \<open>wall\<close> counts its microseconds from 1970-01-01T00:00:00
  of that calendar; \<open>fold\<close> tells the two readings of a repeated hour apart.
  \<open>d - timedelta(days=1)\<close> is arithmetic on the calendar reading and gives \<open>fold = 0\<close>.
\<close>

record datetime =
  wall :: int
  fold :: bool

definition minus_one_day :: "datetime \<Rightarrow> datetime" where
  "minus_one_day d = \<lparr>wall = wall d - 86400000000, fold = False\<rparr>"

section \<open>The outside world: environment variables, Streamlit, HTTP, the LLM\<close>

text \<open>
  Exceptions raised by the libraries inside a \<open>try\<close> block, each with its \<open>str(e)\<close>.
  \<open>RequestException\<close> stands for \<open>requests.exceptions.RequestException\<close> and its
  subclasses, \<open>OpenAIError\<close> for \<open>openai.error.OpenAIError\<close> and its subclasses,
  \<open>OtherException\<close> for every other instance of \<open>Exception\<close>. What is not an
  instance of \<open>Exception\<close> (KeyboardInterrupt, SystemExit, the exceptions by which
  Streamlit itself ends or restarts a script run) is not raised by these calls and is
  left out.
\<close>

datatype exc =
    RequestException string
  | OpenAIError string
  | OtherException string

fun exc_str :: "exc \<Rightarrow> string" where
  "exc_str (RequestException m) = m"
| "exc_str (OpenAIError m) = m"
| "exc_str (OtherException m) = m"

text \<open>
  What leaves \<open>init_config\<close> uncaught: Streamlit's \<open>st.stop()\<close>, which ends the script
  run, and the ValueError of \<open>int\<close> (carrying the text that was refused).
\<close>

datatype halt =
    StopException
  | ValueError string

text \<open>
  An f-string whose fields are not all of type str is kept in parts: literal text, and
  values that Python formats with \<open>str\<close>.
\<close>

datatype part = Lit string | Fmt json

datatype ui_event =
    SetPageConfig string "nat list" string
  | StTitle string
  | StWrite "part list"
  | StTextArea string string
  | StButton string
  | StSpinner string
  | StSubheader string
  | StJson json
  | StMarkdown json
  | StWarning string
  | StError "part list"

text \<open>
  One \<open>requests.get\<close> call. \<open>data\<close> holds the value whose \<open>json.dumps\<close> text is the
  request body, when there is a body.
\<close>

record request =
  url :: string
  headers :: "string dict"
  params :: "json dict"
  data :: "json option"
  timeout :: nat

text \<open>
  A \<open>requests.Response\<close>, as far as the code looks at it: what \<open>raise_for_status()\<close>
  raises, if anything, and what \<open>json()\<close> returns or raises.
\<close>

record response =
  raise_for_status :: "exc option"
  json_body :: "exc + json"

text \<open>
  The chat request: the model name, the system message, the data that is serialised
  into the user message with \<open>json.dumps(data, indent=2)\<close>. The instruction text of
  the user message and the temperature (0.1) are constants of the code.
\<close>

record chat_request =
  model :: string
  system_content :: string
  user_data :: "json dict"

datatype net_call =
    HttpGet request
  | ChatCompletionCreate chat_request

text \<open>
  The world a run acts on: what Streamlit was asked to show, in order, and the network
  calls issued, in order.
\<close>

record world =
  ui :: "ui_event list"
  net :: "net_call list"

text \<open>
  The environment of a run. \<open>environ\<close> is \<open>os.getenv\<close>. \<open>datetime_now k\<close> is what the
  \<open>k\<close>-th call of \<open>datetime.now()\<close> in the run returns. \<open>local_to_seconds d\<close> is the
  POSIX time, in whole seconds, that the platform's rules for the local time zone give
  to the second of the naive date and time \<open>d\<close>. \<open>timestamp_ms s us\<close> is the value of
  \<open>int((s + us / 1e6) * 1000)\<close> in the floating-point arithmetic of the interpreter,
  \<open>s + us / 1e6\<close> being what \<open>timestamp()\<close> returns for a date and time with POSIX second
  \<open>s\<close> and microsecond \<open>us\<close>. The clock is taken to read a date for which the
  subtraction of a day and the conversion are defined. \<open>requests_get n r\<close> is the
  outcome of the call \<open>requests.get\<close> with request \<open>r\<close> when \<open>n\<close> network calls were made
  before it, so the same request may be answered differently each time.
  \<open>chat_completion n r\<close> is the outcome of the \<open>try\<close> body of \<open>analyze_with_gpt\<close>: the
  call \<open>openai.ChatCompletion.create\<close> followed by
  \<open>response['choices'][0]['message']['content']\<close>.
\<close>

record env =
  environ :: "string \<Rightarrow> string option"
  datetime_now :: "nat \<Rightarrow> datetime"
  local_to_seconds :: "datetime \<Rightarrow> int"
  timestamp_ms :: "int \<Rightarrow> int \<Rightarrow> int"
  requests_get :: "nat \<Rightarrow> request \<Rightarrow> exc + response"
  chat_completion :: "nat \<Rightarrow> chat_request \<Rightarrow> exc + json"

definition emit :: "ui_event \<Rightarrow> world \<Rightarrow> world" where
  "emit e w = w\<lparr>ui := ui w @ [e]\<rparr>"

definition call :: "net_call \<Rightarrow> world \<Rightarrow> world" where
  "call c w = w\<lparr>net := net w @ [c]\<rparr>"

section \<open>Configuration (app.py, lines 9 to 30)\<close>

record config =
  OPENAI_API_KEY :: string
  BASE_URL :: string
  DEFAULT_POINTS :: int

definition missing_message :: "string \<Rightarrow> string" where
  "missing_message var_name =
     ''Missing '' @ var_name @ '' environment variable. Please set it in Streamlit Cloud.''"

text \<open>
  \<open>get_env_variable\<close>: \<open>not value\<close> holds when the variable is unset (\<open>None\<close>) or set
  to the empty string; then \<open>st.error\<close> shows the message and \<open>st.stop()\<close> ends the run.
\<close>

definition get_env_variable :: "env \<Rightarrow> string \<Rightarrow> world \<Rightarrow> (halt + string) \<times> world" where
  "get_env_variable e var_name w =
     (let value = environ e var_name
      in if value = None \<or> value = Some []
         then (Inl StopException, emit (StError [Lit (missing_message var_name)]) w)
         else (Inr (the value), w))"

text \<open>\<open>st.set_page_config\<close> with the title, the icon and the layout of the code.\<close>

definition page_config :: ui_event where
  "page_config = SetPageConfig ''DU Status Checker'' [128269] ''wide''"

text \<open>
  \<open>init_config\<close>: the page configuration, then the three entries of the dictionary in
  the order they are written. The page icon is given by its code point.
\<close>

definition init_config :: "env \<Rightarrow> world \<Rightarrow> (halt + config) \<times> world" where
  "init_config e w =
     (let w0 = emit page_config w
      in case get_env_variable e ''OPENAI_API_KEY'' w0 of
           (Inl h, w1) \<Rightarrow> (Inl h, w1)
         | (Inr api_key, w1) \<Rightarrow>
             (case get_env_variable e ''BASE_URL'' w1 of
                (Inl h, w2) \<Rightarrow> (Inl h, w2)
              | (Inr base_url, w2) \<Rightarrow>
                  (let points = (case environ e ''DEFAULT_POINTS'' of
                                   None \<Rightarrow> ''24''
                                 | Some v \<Rightarrow> v)
                   in case py_int points of
                        None \<Rightarrow> (Inl (ValueError points), w2)
                      | Some n \<Rightarrow>
                          (Inr \<lparr>OPENAI_API_KEY = api_key, BASE_URL = base_url,
                                DEFAULT_POINTS = n\<rparr>, w2))))"

section \<open>The time range (app.py, lines 33 to 37)\<close>

text \<open>\<open>int(d.timestamp() * 1000)\<close> for a naive date and time \<open>d\<close>.\<close>

definition timestamp_times_1000 :: "env \<Rightarrow> datetime \<Rightarrow> int" where
  "timestamp_times_1000 e d = timestamp_ms e (local_to_seconds e d) (wall d mod 1000000)"

text \<open>\<open>get_time_range\<close>, as the call that makes the \<open>k\<close>-th reading of the clock.\<close>

definition get_time_range :: "env \<Rightarrow> nat \<Rightarrow> string \<times> string" where
  "get_time_range e k =
     (let now = datetime_now e k;
          end_time = timestamp_times_1000 e now;
          start_time = timestamp_times_1000 e (minus_one_day now)
      in (str_int start_time, str_int end_time))"

section \<open>The functions nested in main (app.py, lines 62 to 126)\<close>

text \<open>The variables of \<open>main\<close> that the nested functions close over.\<close>

record closure =
  cfg :: config
  default_start_time :: string
  default_end_time :: string
  du_name_endpoint :: string
  du_status_endpoint :: string

definition quoted :: "string \<Rightarrow> string" where
  "quoted s = CHR 0x27 # s @ [CHR 0x27]"

definition name_request :: "closure \<Rightarrow> string \<Rightarrow> request" where
  "name_request c du_id =
     \<lparr>url = du_name_endpoint c @ ''/'' @ du_id @ ''/name'',
      headers = [], params = [], data = None, timeout = 10\<rparr>"

text \<open>
  The \<open>try\<close> body of \<open>fetch_du_name\<close>, as the \<open>n\<close>-th network call: the first exception
  raised, or the value returned. \<open>.get\<close> on a value that is not a dict raises an
  AttributeError.
\<close>

definition fetch_du_name_try :: "env \<Rightarrow> closure \<Rightarrow> string \<Rightarrow> nat \<Rightarrow> exc + json" where
  "fetch_du_name_try e c du_id n =
     (case requests_get e n (name_request c du_id) of
        Inl x \<Rightarrow> Inl x
      | Inr response \<Rightarrow>
          (case raise_for_status response of
             Some x \<Rightarrow> Inl x
           | None \<Rightarrow>
               (case json_body response of
                  Inl x \<Rightarrow> Inl x
                | Inr j \<Rightarrow>
                    (case j of
                       JObj d \<Rightarrow> Inr (dict_get d ''name'' (JStr ''Unknown DU Name''))
                     | _ \<Rightarrow> Inl (OtherException
                              (quoted (type_name j) @ '' object has no attribute ''
                                 @ quoted ''get''))))))"

definition fetch_du_name :: "env \<Rightarrow> closure \<Rightarrow> string \<Rightarrow> world \<Rightarrow> json \<times> world" where
  "fetch_du_name e c du_id w =
     (let w1 = call (HttpGet (name_request c du_id)) w
      in case fetch_du_name_try e c du_id (length (net w)) of
           Inr name \<Rightarrow> (name, w1)
         | Inl (RequestException m) \<Rightarrow>
             (JStr ''Unknown DU Name'',
              emit (StWarning (''Network error fetching DU name: '' @ m)) w1)
         | Inl x \<Rightarrow>
             (JStr ''Error fetching name'',
              emit (StError [Lit (''Error fetching DU name: '' @ exc_str x)]) w1))"

definition status_request :: "closure \<Rightarrow> string \<Rightarrow> request" where
  "status_request c du_id =
     \<lparr>url = du_status_endpoint c,
      headers = [(''Content-Type'', ''application/json'')],
      params = [(''start'', JStr (default_start_time c)),
                (''end'', JStr (default_end_time c)),
                (''points'', JInt (DEFAULT_POINTS (cfg c)))],
      data = Some (JArr [JStr du_id]),
      timeout = 10\<rparr>"

text \<open>The \<open>try\<close> body of one iteration of \<open>fetch_du_status\<close>, as the \<open>n\<close>-th network call.\<close>

definition fetch_du_status_try :: "env \<Rightarrow> closure \<Rightarrow> string \<Rightarrow> nat \<Rightarrow> exc + json" where
  "fetch_du_status_try e c du_id n =
     (case requests_get e n (status_request c du_id) of
        Inl x \<Rightarrow> Inl x
      | Inr response \<Rightarrow>
          (case raise_for_status response of
             Some x \<Rightarrow> Inl x
           | None \<Rightarrow> json_body response))"

text \<open>The value that one iteration stores in \<open>results[du_id]\<close>.\<close>

definition status_value :: "env \<Rightarrow> closure \<Rightarrow> string \<Rightarrow> nat \<Rightarrow> json" where
  "status_value e c du_id n =
     (case fetch_du_status_try e c du_id n of
        Inr j \<Rightarrow> j
      | Inl (RequestException m) \<Rightarrow> JStr (''Network Error: '' @ m)
      | Inl x \<Rightarrow> JStr (''Processing Error: '' @ exc_str x))"

text \<open>What one iteration shows: a warning, an error, or nothing.\<close>

definition status_report :: "env \<Rightarrow> closure \<Rightarrow> string \<Rightarrow> nat \<Rightarrow> world \<Rightarrow> world" where
  "status_report e c du_id n w =
     (case fetch_du_status_try e c du_id n of
        Inr j \<Rightarrow> w
      | Inl (RequestException m) \<Rightarrow>
          emit (StWarning (''Network error for DU '' @ du_id @ '': '' @ m)) w
      | Inl x \<Rightarrow>
          emit (StError [Lit (''Error processing DU '' @ du_id @ '': '' @ exc_str x)]) w)"

fun fetch_du_status_loop ::
  "env \<Rightarrow> closure \<Rightarrow> string list \<Rightarrow> json dict \<Rightarrow> world \<Rightarrow> json dict \<times> world" where
  "fetch_du_status_loop e c [] results w = (results, w)"
| "fetch_du_status_loop e c (du_id # rest) results w =
     fetch_du_status_loop e c rest
       (dict_set results du_id (status_value e c du_id (length (net w))))
       (status_report e c du_id (length (net w))
          (call (HttpGet (status_request c du_id)) w))"

definition fetch_du_status :: "env \<Rightarrow> closure \<Rightarrow> string list \<Rightarrow> world \<Rightarrow> json dict \<times> world" where
  "fetch_du_status e c du_ids w = fetch_du_status_loop e c du_ids [] w"

definition analyze_with_gpt :: "env \<Rightarrow> json dict \<Rightarrow> world \<Rightarrow> json \<times> world" where
  "analyze_with_gpt e dat w =
     (let req = \<lparr>model = ''gpt-4o-mini'',
                 system_content = ''You are an assistant analyzing DU status data.'',
                 user_data = dat\<rparr>;
          w1 = call (ChatCompletionCreate req) w
      in case chat_completion e (length (net w)) req of
           Inr content \<Rightarrow> (content, w1)
         | Inl (OpenAIError m) \<Rightarrow>
             (JStr ''Error analyzing data with GPT'',
              emit (StError [Lit (''OpenAI API error: '' @ m)]) w1)
         | Inl x \<Rightarrow>
             (JStr ''Error processing analysis'',
              emit (StError [Lit (''Unexpected error during analysis: '' @ exc_str x)]) w1))"

section \<open>The button handler and main (app.py, lines 40 to 60 and 129 to 160)\<close>

text \<open>Line 135: \<open>[du.strip() for du in du_input.split(",") if du.strip()]\<close>\<close>

definition du_ids_of_input :: "string \<Rightarrow> string list" where
  "du_ids_of_input du_input =
     map str_strip (filter (\<lambda>du. str_strip du \<noteq> []) (str_split du_input CHR '',''))"

text \<open>Lines 144 to 152: the loop over \<open>statuses.items()\<close> that builds \<open>collected_data\<close>.\<close>

fun render_statuses ::
  "env \<Rightarrow> closure \<Rightarrow> json dict \<Rightarrow> json dict \<Rightarrow> world \<Rightarrow> json dict \<times> world" where
  "render_statuses e c [] collected_data w = (collected_data, w)"
| "render_statuses e c ((du_id, status) # rest) collected_data w =
     (let (du_name, w1) = fetch_du_name e c du_id w;
          w2 = emit (StWrite [Lit ''**DU ID**: '', Lit du_id, Lit '' - **Name**: '',
                              Fmt du_name]) w1
      in if is_dict status
         then render_statuses e c rest
                (dict_set collected_data du_id
                   (JObj [(''name'', du_name), (''status'', status)]))
                (emit (StJson status) w2)
         else render_statuses e c rest collected_data
                (emit (StError [Lit ''Error for DU ID '', Lit du_id, Lit '': '',
                                Fmt status]) w2))"

text \<open>Lines 133 to 152: from the spinner to the end of the rendering loop.\<close>

definition fetch_and_render :: "env \<Rightarrow> closure \<Rightarrow> string \<Rightarrow> world \<Rightarrow> json dict \<times> world" where
  "fetch_and_render e c du_input w =
     (let w0 = emit (StSpinner ''Fetching DU status and names...'') w;
          du_ids = du_ids_of_input du_input;
          (statuses, w1) = fetch_du_status e c du_ids w0;
          w2 = emit (StSubheader ''DU Status Results'') w1
      in render_statuses e c statuses [] w2)"

text \<open>Lines 130 to 160: the body of \<open>if st.button("Check DU Status")\<close>.\<close>

definition on_click :: "env \<Rightarrow> closure \<Rightarrow> string \<Rightarrow> world \<Rightarrow> world" where
  "on_click e c du_input w =
     (if str_strip du_input = []
      then emit (StError [Lit ''Please enter at least one DU ID.'']) w
      else
        (let (collected_data, w3) = fetch_and_render e c du_input w
         in if collected_data \<noteq> []
            then
              (let w4 = emit (StSubheader ''LLM Detailed Analysis'') w3;
                   w5 = emit (StSpinner ''Analyzing data with GPT...'') w4;
                   (explanation, w6) = analyze_with_gpt e collected_data w5;
                   w7 = emit (StWrite [Lit ''**Analysis**:'']) w6
               in emit (StMarkdown explanation) w7)
            else w3))"

text \<open>
  \<open>main\<close>, for one script run: \<open>du_input\<close> is what the text area holds and \<open>clicked\<close>
  what \<open>st.button\<close> returns. The result says whether an exception ended the run.
  The run reads the clock once, in \<open>get_time_range\<close>.
  The assignment to \<open>openai.api_key\<close> shows nothing and calls nothing; it is left out.
\<close>

definition main :: "env \<Rightarrow> string \<Rightarrow> bool \<Rightarrow> world \<Rightarrow> halt option \<times> world" where
  "main e du_input clicked w =
     (case init_config e w of
        (Inl h, w1) \<Rightarrow> (Some h, w1)
      | (Inr config, w1) \<Rightarrow>
          (let (start_time, end_time) = get_time_range e 0;
               base_url = BASE_URL config;
               c = \<lparr>cfg = config,
                    default_start_time = start_time,
                    default_end_time = end_time,
                    du_name_endpoint = base_url @ ''/duId'',
                    du_status_endpoint = base_url @ ''/duId/batch/withBandwidth''\<rparr>;
               w2 = emit (StTitle ''DU Status Identification'') w1;
               w3 = emit (StWrite [Lit ''Enter Deployment Unit (DU) IDs manually to fetch their status and associated names.'']) w2;
               w4 = emit (StTextArea ''Enter DU IDs (comma-separated)''
                            ''e.g., 1639, 2092'') w3;
               w5 = emit (StButton ''Check DU Status'') w4
           in (None, if clicked then on_click e c du_input w5 else w5)))"

section \<open>What the specification says, in its own words\<close>

text \<open>
  The identifier list of the specification: split the input on commas, trim each token,
  drop the empty tokens.
\<close>

definition spec_identifier_list :: "string \<Rightarrow> string list" where
  "spec_identifier_list s =
     filter (\<lambda>t. t \<noteq> []) (map str_strip (str_split s CHR '',''))"

text \<open>The distinct elements of a list, each at the place of its first occurrence.\<close>

primrec first_occurrences :: "'a list \<Rightarrow> 'a list" where
  "first_occurrences [] = []"
| "first_occurrences (x # xs) = x # filter (\<lambda>y. y \<noteq> x) (first_occurrences xs)"

text \<open>The network calls of a world that are chat completions, and their data.\<close>

fun chat_data :: "net_call list \<Rightarrow> json dict list" where
  "chat_data [] = []"
| "chat_data (HttpGet r # cs) = chat_data cs"
| "chat_data (ChatCompletionCreate r # cs) = user_data r # chat_data cs"

text \<open>
  An environment variable that \<open>get_env_variable\<close> treats as missing: unset, or set to
  the empty string.
\<close>

definition unset_or_empty :: "env \<Rightarrow> string \<Rightarrow> bool" where
  "unset_or_empty e var_name = (environ e var_name = None \<or> environ e var_name = Some [])"

text \<open>
  The failure cases of a name lookup made as the \<open>n\<close>-th network call: the request
  itself fails (connection error, timeout), the status check fails, the body is not
  JSON, or the JSON body is not an object.
\<close>

definition name_lookup_fails :: "env \<Rightarrow> closure \<Rightarrow> string \<Rightarrow> nat \<Rightarrow> bool" where
  "name_lookup_fails e c du_id n =
     (case requests_get e n (name_request c du_id) of
        Inl x \<Rightarrow> True
      | Inr response \<Rightarrow>
          (case raise_for_status response of
             Some x \<Rightarrow> True
           | None \<Rightarrow>
               (case json_body response of
                  Inl x \<Rightarrow> True
                | Inr j \<Rightarrow> \<not> is_dict j)))"

text \<open>\<open>sep.join(xs)\<close> for a one-character separator, the inverse of \<open>str_split\<close>.\<close>

fun str_join :: "char \<Rightarrow> string list \<Rightarrow> string" where
  "str_join sep [] = []"
| "str_join sep [t] = t"
| "str_join sep (t # u # ts) = t @ sep # str_join sep (u # ts)"




section \<open>Example runs\<close>

definition empty_world :: world where
  "empty_world = \<lparr>ui = [], net = []\<rparr>"

definition example_closure :: closure where
  "example_closure =
     \<lparr>cfg = \<lparr>OPENAI_API_KEY = ''sk-test'', BASE_URL = ''http://api'', DEFAULT_POINTS = 24\<rparr>,
      default_start_time = ''1699913600123'',
      default_end_time = ''1700000000123'',
      du_name_endpoint = ''http://api/duId'',
      du_status_endpoint = ''http://api/duId/batch/withBandwidth''\<rparr>"

definition ok_response :: "json \<Rightarrow> exc + response" where
  "ok_response j = Inr \<lparr>raise_for_status = None, json_body = Inr j\<rparr>"

definition server_error :: "exc + response" where
  "server_error =
     Inr \<lparr>raise_for_status = Some (RequestException ''500 Server Error''),
          json_body = Inl (OtherException ''Expecting value'')\<rparr>"

text \<open>
  A server that answers by request: status \<open>{"BIFLOW": "active"}\<close> for the identifier
  1639 and HTTP 500 for every other one; the name \<open>Router-A\<close> for 1639, a JSON list
  for 2092, and a timeout for every other name.
\<close>

definition server_get :: "nat \<Rightarrow> request \<Rightarrow> exc + response" where
  "server_get n r =
     (if data r = Some (JArr [JStr ''1639''])
      then ok_response (JObj [(''BIFLOW'', JStr ''active'')])
      else if data r \<noteq> None then server_error
      else if url r = ''http://api/duId/1639/name''
      then ok_response (JObj [(''name'', JStr ''Router-A'')])
      else if url r = ''http://api/duId/2092/name''
      then ok_response (JArr [])
      else Inl (RequestException ''Read timed out''))"

definition example_environ :: "string \<Rightarrow> string option" where
  "example_environ =
     map_of [(''OPENAI_API_KEY'', ''sk-test''), (''BASE_URL'', ''http://api'')]"

text \<open>
  Its clock reads 2023-11-14T22:13:20.123456 at the first call and one second more at
  each later call; the local time is UTC, and the milliseconds are computed exactly.
\<close>

definition server_env :: env where
  "server_env =
     \<lparr>environ = example_environ,
      datetime_now = (\<lambda>k. \<lparr>wall = 1700000000123456 + 1000000 * int k, fold = False\<rparr>),
      local_to_seconds = (\<lambda>d. wall d div 1000000),
      timestamp_ms = (\<lambda>s us. s * 1000 + us div 1000),
      requests_get = server_get,
      chat_completion = (\<lambda>n r. Inr (JStr ''- 1639: BIFLOW is active''))\<rparr>"

text \<open>
  A server that answers by the number of the call: the first call times out, the second
  is answered with HTTP 500, every later one with \<open>{"FIREWALL": "inactive"}\<close>.
\<close>

definition flaky_get :: "nat \<Rightarrow> request \<Rightarrow> exc + response" where
  "flaky_get n r =
     (if n = 0 then Inl (RequestException ''Read timed out'')
      else if n = 1 then server_error
      else ok_response (JObj [(''FIREWALL'', JStr ''inactive'')]))"

definition flaky_env :: env where
  "flaky_env = server_env\<lparr>requests_get := flaky_get\<rparr>"

text \<open>The same, except that the second call succeeds.\<close>

definition flaky_env' :: env where
  "flaky_env' =
     server_env\<lparr>requests_get :=
       (\<lambda>n r. if n = 1 then ok_response (JObj [(''BIFLOW'', JStr ''active'')])
              else flaky_get n r)\<rparr>"

text \<open>Environments with a variable missing, empty or ill-formed.\<close>

definition no_key_env :: env where
  "no_key_env = server_env\<lparr>environ := map_of [(''BASE_URL'', ''http://api'')]\<rparr>"

definition empty_base_env :: env where
  "empty_base_env =
     server_env\<lparr>environ := map_of [(''OPENAI_API_KEY'', ''sk-test''), (''BASE_URL'', [])]\<rparr>"

definition bad_points_env :: env where
  "bad_points_env =
     server_env\<lparr>environ := map_of [(''OPENAI_API_KEY'', ''sk-test''),
                                     (''BASE_URL'', ''http://api''),
                                     (''DEFAULT_POINTS'', ''abc'')]\<rparr>"

definition points_env :: env where
  "points_env =
     server_env\<lparr>environ := map_of [(''OPENAI_API_KEY'', ''sk-test''),
                                     (''BASE_URL'', ''http://api''),
                                     (''DEFAULT_POINTS'', '' 48 '')]\<rparr>"

definition both_missing_env :: env where
  "both_missing_env = server_env\<lparr>environ := (\<lambda>var_name. None)\<rparr>"

definition separator_points_env :: env where
  "separator_points_env =
     server_env\<lparr>environ := map_of [(''OPENAI_API_KEY'', ''sk-test''),
                                     (''BASE_URL'', ''http://api''),
                                     (''DEFAULT_POINTS'', [CHR 0x1C, CHR ''7''])]\<rparr>"

text \<open>
  A clock that reads 2024-03-31T12:00:00 in a time zone that is one hour ahead of UTC
  until 2024-03-31T02:00:00 of its calendar and two hours ahead from then on.
\<close>

definition dst_env :: env where
  "dst_env =
     server_env\<lparr>datetime_now := (\<lambda>k. \<lparr>wall = 1711886400000000, fold = False\<rparr>),
                local_to_seconds :=
                  (\<lambda>d. wall d div 1000000
                         - (if wall d < 1711850400000000 then 3600 else 7200))\<rparr>"

section \<open>Lemmas about the trace, the dictionaries and the built-ins\<close>

lemma net_emit: "net (emit ev w) = net w"
  by (simp add: emit_def)

lemma ui_emit: "ui (emit ev w) = ui w @ [ev]"
  by (simp add: emit_def)

lemma net_call: "net (call cl w) = net w @ [cl]"
  by (simp add: call_def)

lemma ui_call: "ui (call cl w) = ui w"
  by (simp add: call_def)

lemma net_status_report: "net (status_report e c du_id n w) = net w"
  by (simp add: status_report_def net_emit split: sum.splits exc.splits)

lemma map_of_dict_set: "map_of (dict_set d k v) = (map_of d)(k \<mapsto> v)"
  by (induction d) auto

lemma keys_dict_set:
  "map fst (dict_set d k v) = (if k \<in> set (map fst d) then map fst d else map fst d @ [k])"
  by (induction d) force+

lemma set_first_occurrences: "set (first_occurrences xs) = set xs"
  by (induction xs) auto

lemma distinct_first_occurrences: "distinct (first_occurrences xs)"
  by (induction xs) (auto simp: set_first_occurrences)

lemma loop_net:
  "net (snd (fetch_du_status_loop e c du_ids results w)) =
     net w @ map (\<lambda>du_id. HttpGet (status_request c du_id)) du_ids"
  by (induction du_ids arbitrary: results w) (simp_all add: net_status_report net_call)

lemma loop_keys:
  "map fst (fst (fetch_du_status_loop e c du_ids results w)) =
     map fst results @ filter (\<lambda>k. k \<notin> set (map fst results)) (first_occurrences du_ids)"
proof (induction du_ids arbitrary: results w)
  case Nil
  show ?case by simp
next
  case (Cons x xs)
  show ?case
  proof (cases "x \<in> set (map fst results)")
    case True
    then have "filter (\<lambda>k. k \<notin> set (map fst results)) (filter (\<lambda>y. y \<noteq> x) (first_occurrences xs))
             = filter (\<lambda>k. k \<notin> set (map fst results)) (first_occurrences xs)"
      by (auto intro: filter_cong)
    with True show ?thesis
      by (simp add: Cons.IH keys_dict_set)
  next
    case False
    then have "filter (\<lambda>k. k \<notin> set (map fst results)) (filter (\<lambda>y. y \<noteq> x) (first_occurrences xs))
             = filter (\<lambda>k. k \<noteq> x \<and> k \<notin> set (map fst results)) (first_occurrences xs)"
      by (auto intro: filter_cong)
    with False show ?thesis
      by (simp add: Cons.IH keys_dict_set)
  qed
qed

lemma loop_lookup_other:
  "k \<notin> set du_ids \<Longrightarrow>
     map_of (fst (fetch_du_status_loop e c du_ids results w)) k = map_of results k"
  by (induction du_ids arbitrary: results w) (auto simp: map_of_dict_set)

lemma loop_lookup_last:
  "i < length du_ids \<Longrightarrow>
   (\<forall>j. i < j \<and> j < length du_ids \<longrightarrow> du_ids ! j \<noteq> du_ids ! i) \<Longrightarrow>
   map_of (fst (fetch_du_status_loop e c du_ids results w)) (du_ids ! i) =
     Some (status_value e c (du_ids ! i) (length (net w) + i))"
proof (induction du_ids arbitrary: i results w)
  case Nil
  then show ?case by simp
next
  case (Cons x xs)
  show ?case
  proof (cases i)
    case 0
    have "x \<notin> set xs"
    proof
      assume "x \<in> set xs"
      then obtain j where "j < length xs" "xs ! j = x"
        by (auto simp: in_set_conv_nth)
      with Cons.prems(2) 0 show False
        by (auto dest: spec [of _ "Suc j"])
    qed
    with 0 show ?thesis
      by (simp add: loop_lookup_other map_of_dict_set)
  next
    case (Suc i')
    have later: "\<forall>j. i' < j \<and> j < length xs \<longrightarrow> xs ! j \<noteq> xs ! i'"
    proof (intro allI impI)
      fix j
      assume "i' < j \<and> j < length xs"
      with Cons.prems(2) Suc show "xs ! j \<noteq> xs ! i'"
        by (auto dest: spec [of _ "Suc j"])
    qed
    from Cons.prems(1) Suc have "i' < length xs" by simp
    from Cons.IH [OF this later] Suc show ?thesis
      by (simp add: net_status_report net_call)
  qed
qed

lemma last_occurrence:
  "x \<in> set xs \<Longrightarrow>
     \<exists>i<length xs. xs ! i = x \<and> (\<forall>j. i < j \<and> j < length xs \<longrightarrow> xs ! j \<noteq> x)"
proof (induction xs)
  case Nil
  then show ?case by simp
next
  case (Cons y ys)
  show ?case
  proof (cases "x \<in> set ys")
    case True
    with Cons.IH obtain i where i: "i < length ys" "ys ! i = x"
      "\<forall>j. i < j \<and> j < length ys \<longrightarrow> ys ! j \<noteq> x"
      by blast
    have "\<forall>j. Suc i < j \<and> j < length (y # ys) \<longrightarrow> (y # ys) ! j \<noteq> x"
    proof (intro allI impI)
      fix j
      assume j: "Suc i < j \<and> j < length (y # ys)"
      then obtain j' where "j = Suc j'" by (cases j) auto
      with j i(3) show "(y # ys) ! j \<noteq> x" by auto
    qed
    with i(1,2) show ?thesis
      by (intro exI [of _ "Suc i"]) simp
  next
    case False
    with Cons.prems have "y = x" by simp
    with False show ?thesis
      by (intro exI [of _ 0]) (auto simp: nth_Cons split: nat.splits)
  qed
qed

lemma status_value_cong:
  assumes "requests_get e' n = requests_get e n"
  shows "status_value e' c du_id n = status_value e c du_id n"
  unfolding status_value_def fetch_du_status_try_def assms ..

lemma fetch_du_status_keys:
  "map fst (fst (fetch_du_status e c du_ids w)) = first_occurrences du_ids"
  by (simp add: fetch_du_status_def loop_keys)

lemma fetch_du_status_isolated:
  assumes agree: "\<forall>n. n \<noteq> length (net w) + k \<longrightarrow> requests_get e' n = requests_get e n"
    and other: "X \<noteq> du_ids ! k"
  shows "map_of (fst (fetch_du_status e' c du_ids w)) X =
         map_of (fst (fetch_du_status e c du_ids w)) X"
proof (cases "X \<in> set du_ids")
  case False
  then show ?thesis
    by (simp add: fetch_du_status_def loop_lookup_other)
next
  case True
  from last_occurrence [OF True] obtain i where i: "i < length du_ids" "du_ids ! i = X"
    "\<forall>j. i < j \<and> j < length du_ids \<longrightarrow> du_ids ! j \<noteq> X"
    by blast
  from i(2) other have "i \<noteq> k" by auto
  with agree have "requests_get e' (length (net w) + i) = requests_get e (length (net w) + i)"
    by simp
  then have same: "status_value e' c X (length (net w) + i) = status_value e c X (length (net w) + i)"
    by (rule status_value_cong)
  from i have last: "\<forall>j. i < j \<and> j < length du_ids \<longrightarrow> du_ids ! j \<noteq> du_ids ! i"
    by simp
  have "map_of (fst (fetch_du_status_loop e c du_ids [] w)) (du_ids ! i) =
          Some (status_value e c (du_ids ! i) (length (net w) + i))"
    by (rule loop_lookup_last [OF i(1) last])
  moreover have "map_of (fst (fetch_du_status_loop e' c du_ids [] w)) (du_ids ! i) =
          Some (status_value e' c (du_ids ! i) (length (net w) + i))"
    by (rule loop_lookup_last [OF i(1) last])
  ultimately show ?thesis
    unfolding fetch_du_status_def i(2) by (simp only: same)
qed

lemma net_fetch_du_name:
  "net (snd (fetch_du_name e c du_id w)) = net w @ [HttpGet (name_request c du_id)]"
  by (simp add: fetch_du_name_def Let_def net_emit net_call split: sum.splits exc.splits)

lemma fst_fetch_du_name_cong:
  "length (net w') = length (net w) \<Longrightarrow>
     fst (fetch_du_name e c du_id w') = fst (fetch_du_name e c du_id w)"
  by (simp add: fetch_du_name_def Let_def split: sum.splits exc.splits)

lemma render_statuses_net:
  "net (snd (render_statuses e c statuses collected w)) =
     net w @ map (\<lambda>du_id. HttpGet (name_request c du_id)) (map fst statuses)"
  by (induction statuses arbitrary: collected w)
     (auto simp: Let_def case_prod_beta net_emit net_fetch_du_name)

lemma render_statuses_other:
  "k \<notin> set (map fst statuses) \<Longrightarrow>
     map_of (fst (render_statuses e c statuses collected w)) k = map_of collected k"
  by (induction statuses arbitrary: collected w)
     (auto simp: Let_def case_prod_beta map_of_dict_set)

lemma render_statuses_lookup:
  "distinct (map fst statuses) \<Longrightarrow> i < length statuses \<Longrightarrow>
   length (net w') = length (net w) + i \<Longrightarrow>
   map_of (fst (render_statuses e c statuses collected w)) (fst (statuses ! i)) =
     (if is_dict (snd (statuses ! i))
      then Some (JObj [(''name'', fst (fetch_du_name e c (fst (statuses ! i)) w')),
                       (''status'', snd (statuses ! i))])
      else map_of collected (fst (statuses ! i)))"
proof (induction statuses arbitrary: i collected w)
  case Nil
  then show ?case by simp
next
  case (Cons p ps)
  obtain du_id status where p: "p = (du_id, status)" by (cases p)
  show ?case
  proof (cases i)
    case 0
    from Cons.prems(1) p have fresh: "du_id \<notin> set (map fst ps)" by simp
    from Cons.prems(3) 0 have "length (net w') = length (net w)" by simp
    then have name: "fst (fetch_du_name e c du_id w') = fst (fetch_du_name e c du_id w)"
      by (rule fst_fetch_du_name_cong)
    from 0 p fresh show ?thesis
      by (simp add: Let_def case_prod_beta render_statuses_other map_of_dict_set name)
  next
    case (Suc i')
    from Cons.prems(1) have d: "distinct (map fst ps)" by simp
    from Cons.prems(2) Suc have i': "i' < length ps" by simp
    from i' have "ps ! i' \<in> set ps" by simp
    then have "fst (ps ! i') \<in> set (map fst ps)" by simp
    with Cons.prems(1) p have neq: "fst (ps ! i') \<noteq> du_id" by auto
    have len: "\<And>w1. net w1 = net (snd (fetch_du_name e c du_id w)) \<Longrightarrow>
                 length (net w') = length (net w1) + i'"
      using Cons.prems(3) Suc by (simp add: net_fetch_du_name)
    show ?thesis
    proof (cases "is_dict status")
      case True
      have "length (net w') =
              length (net (emit (StJson status)
                 (emit (StWrite [Lit ''**DU ID**: '', Lit du_id, Lit '' - **Name**: '',
                                 Fmt (fst (fetch_du_name e c du_id w))])
                    (snd (fetch_du_name e c du_id w))))) + i'"
        by (rule len) (simp add: net_emit)
      from Cons.IH [OF d i' this] True Suc p neq show ?thesis
        by (simp add: Let_def case_prod_beta map_of_dict_set)
    next
      case False
      have "length (net w') =
              length (net (emit (StError [Lit ''Error for DU ID '', Lit du_id, Lit '': '',
                                         Fmt status])
                 (emit (StWrite [Lit ''**DU ID**: '', Lit du_id, Lit '' - **Name**: '',
                                 Fmt (fst (fetch_du_name e c du_id w))])
                    (snd (fetch_du_name e c du_id w))))) + i'"
        by (rule len) (simp add: net_emit)
      from Cons.IH [OF d i' this] False Suc p neq show ?thesis
        by (simp add: Let_def case_prod_beta)
    qed
  qed
qed

lemma str_strip_empty_iff: "str_strip s = [] \<longleftrightarrow> (\<forall>ch \<in> set s. isspace ch)"
proof
  assume "str_strip s = []"
  then have all: "\<forall>ch \<in> set (dropWhile isspace s). isspace ch"
    by (simp add: str_strip_def dropWhile_eq_Nil_conv)
  have "dropWhile isspace s = []"
  proof (rule ccontr)
    assume ne: "dropWhile isspace s \<noteq> []"
    then have "\<not> isspace (hd (dropWhile isspace s))"
      by (rule hd_dropWhile)
    moreover from ne have "hd (dropWhile isspace s) \<in> set (dropWhile isspace s)"
      by (rule hd_in_set)
    ultimately show False using all by blast
  qed
  then show "\<forall>ch \<in> set s. isspace ch"
    by (simp add: dropWhile_eq_Nil_conv)
next
  assume "\<forall>ch \<in> set s. isspace ch"
  then show "str_strip s = []"
    by (auto simp: str_strip_def dest: set_dropWhileD)
qed

lemma set_str_strip: "set (str_strip s) \<subseteq> set s"
proof -
  have "set (str_strip s) \<subseteq> set (dropWhile isspace s)"
    unfolding str_strip_def set_rev by (metis set_dropWhileD set_rev subsetI)
  also have "\<dots> \<subseteq> set s"
    by (auto dest: set_dropWhileD)
  finally show ?thesis .
qed

lemma du_ids_of_input_eq_spec: "du_ids_of_input s = spec_identifier_list s"
  by (simp add: du_ids_of_input_def spec_identifier_list_def filter_map comp_def)

lemma net_fetch_and_render:
  "net (snd (fetch_and_render e c s w)) =
     net w @ map (\<lambda>du_id. HttpGet (status_request c du_id)) (du_ids_of_input s)
           @ map (\<lambda>du_id. HttpGet (name_request c du_id)) (first_occurrences (du_ids_of_input s))"
proof -
  obtain statuses w1 where f: "fetch_du_status e c (du_ids_of_input s)
      (emit (StSpinner ''Fetching DU status and names...'') w) = (statuses, w1)"
    by (cases "fetch_du_status e c (du_ids_of_input s)
      (emit (StSpinner ''Fetching DU status and names...'') w)")
  have keys: "map fst statuses = first_occurrences (du_ids_of_input s)"
    using fetch_du_status_keys [of e c "du_ids_of_input s"
      "emit (StSpinner ''Fetching DU status and names...'') w"] f by simp
  have net1: "net w1 = net w @ map (\<lambda>du_id. HttpGet (status_request c du_id)) (du_ids_of_input s)"
    using loop_net [of e c "du_ids_of_input s" "[]"
      "emit (StSpinner ''Fetching DU status and names...'') w"] f
    by (simp add: fetch_du_status_def net_emit)
  show ?thesis
    by (simp add: fetch_and_render_def Let_def f render_statuses_net net_emit keys net1)
qed

lemma chat_data_append: "chat_data (xs @ ys) = chat_data xs @ chat_data ys"
  by (induction xs rule: chat_data.induct) simp_all

lemma chat_data_gets: "chat_data (map (\<lambda>x. HttpGet (f x)) xs) = []"
  by (induction xs) simp_all

lemma chat_data_fetch_and_render:
  "chat_data (net (snd (fetch_and_render e c s w))) = chat_data (net w)"
  by (simp add: net_fetch_and_render chat_data_append chat_data_gets)

lemma net_analyze_with_gpt:
  "net (snd (analyze_with_gpt e dat w)) =
     net w @ [ChatCompletionCreate
                \<lparr>model = ''gpt-4o-mini'',
                 system_content = ''You are an assistant analyzing DU status data.'',
                 user_data = dat\<rparr>]"
  by (simp add: analyze_with_gpt_def Let_def net_emit net_call split: sum.splits exc.splits)

lemma get_env_variable_missing:
  "unset_or_empty e var_name \<Longrightarrow>
     get_env_variable e var_name w =
       (Inl StopException, emit (StError [Lit (missing_message var_name)]) w)"
  by (auto simp: get_env_variable_def unset_or_empty_def Let_def)

lemma get_env_variable_present:
  "\<not> unset_or_empty e var_name \<Longrightarrow>
     get_env_variable e var_name w = (Inr (the (environ e var_name)), w)"
  by (auto simp: get_env_variable_def unset_or_empty_def Let_def)

lemma init_config_no_key:
  "unset_or_empty e ''OPENAI_API_KEY'' \<Longrightarrow>
     init_config e w =
       (Inl StopException,
        emit (StError [Lit (missing_message ''OPENAI_API_KEY'')]) (emit page_config w))"
  by (simp add: init_config_def Let_def get_env_variable_missing)

lemma init_config_no_base:
  "\<not> unset_or_empty e ''OPENAI_API_KEY'' \<Longrightarrow> unset_or_empty e ''BASE_URL'' \<Longrightarrow>
     init_config e w =
       (Inl StopException,
        emit (StError [Lit (missing_message ''BASE_URL'')]) (emit page_config w))"
  by (simp add: init_config_def Let_def get_env_variable_missing get_env_variable_present)

lemma init_config_present:
  "\<not> unset_or_empty e ''OPENAI_API_KEY'' \<Longrightarrow> \<not> unset_or_empty e ''BASE_URL'' \<Longrightarrow>
     init_config e w =
       (let points = (case environ e ''DEFAULT_POINTS'' of None \<Rightarrow> ''24'' | Some v \<Rightarrow> v)
        in case py_int points of
             None \<Rightarrow> (Inl (ValueError points), emit page_config w)
           | Some n \<Rightarrow>
               (Inr \<lparr>OPENAI_API_KEY = the (environ e ''OPENAI_API_KEY''),
                     BASE_URL = the (environ e ''BASE_URL''),
                     DEFAULT_POINTS = n\<rparr>, emit page_config w))"
  by (simp add: init_config_def Let_def get_env_variable_present)

lemma init_config_returns:
  assumes "fst (init_config e w) = Inr config"
  shows "\<not> unset_or_empty e ''OPENAI_API_KEY'' \<and> \<not> unset_or_empty e ''BASE_URL''
       \<and> environ e ''OPENAI_API_KEY'' = Some (OPENAI_API_KEY config)
       \<and> environ e ''BASE_URL'' = Some (BASE_URL config)"
proof (cases "unset_or_empty e ''OPENAI_API_KEY''")
  case True
  with assms show ?thesis by (simp add: init_config_no_key)
next
  case k: False
  show ?thesis
  proof (cases "unset_or_empty e ''BASE_URL''")
    case True
    with k assms show ?thesis by (simp add: init_config_no_base)
  next
    case b: False
    from k obtain key where key: "environ e ''OPENAI_API_KEY'' = Some key"
      by (auto simp: unset_or_empty_def)
    from b obtain base where base: "environ e ''BASE_URL'' = Some base"
      by (auto simp: unset_or_empty_def)
    from assms k b key base show ?thesis
      by (auto simp: init_config_present Let_def split: option.splits)
  qed
qed

lemmas example_defs =
  empty_world_def example_closure_def ok_response_def server_error_def server_get_def
  example_environ_def server_env_def flaky_get_def flaky_env_def flaky_env'_def
  no_key_env_def empty_base_env_def bad_points_env_def points_env_def
  both_missing_env_def separator_points_env_def dst_env_def

lemmas py_defs =
  str_strip_def isspace_def int_strip_def int_space_def is_digit_def digit_value_def
  int_unsigned_def py_int_def dict_get_def quoted_def

lemmas fetch_defs =
  fetch_du_status_try_def status_value_def status_request_def name_request_def
  fetch_du_name_try_def fetch_du_name_def name_lookup_fails_def

lemmas run_defs =
  fetch_and_render_def du_ids_of_input_def fetch_du_status_def status_report_def
  emit_def call_def

lemma str_split_not_Nil: "str_split s sep \<noteq> []"
  by (induction s) (auto split: list.splits)

lemma str_join_split: "str_join sep (str_split s sep) = s"
proof (induction s)
  case Nil
  show ?case by simp
next
  case (Cons c cs)
  obtain t ts where sp: "str_split cs sep = t # ts"
    using str_split_not_Nil [of cs sep] by (cases "str_split cs sep") auto
  show ?case
  proof (cases "c = sep")
    case True
    with Cons sp show ?thesis by simp
  next
    case False
    have "str_join sep ((c # t) # ts) = c # str_join sep (t # ts)"
      by (cases ts) simp_all
    with False Cons sp show ?thesis by simp
  qed
qed

lemma str_split_no_sep: "t \<in> set (str_split s sep) \<Longrightarrow> sep \<notin> set t"
proof (induction s arbitrary: t)
  case Nil
  then show ?case by simp
next
  case (Cons c cs)
  obtain u us where sp: "str_split cs sep = u # us"
    using str_split_not_Nil [of cs sep] by (cases "str_split cs sep") auto
  from Cons.IH sp have u: "sep \<notin> set u" and us: "\<forall>x \<in> set us. sep \<notin> set x"
    by auto
  show ?case
  proof (cases "c = sep")
    case True
    with Cons.prems sp u us show ?thesis by auto
  next
    case False
    with Cons.prems sp u us show ?thesis by auto
  qed
qed

lemma length_str_split: "length (str_split s sep) = Suc (count_list s sep)"
proof (induction s)
  case Nil
  show ?case by simp
next
  case (Cons c cs)
  obtain u us where sp: "str_split cs sep = u # us"
    using str_split_not_Nil [of cs sep] by (cases "str_split cs sep") auto
  with Cons show ?case by auto
qed

lemma str_strip_ends:
  assumes "str_strip s \<noteq> []"
  shows "\<not> isspace (hd (str_strip s)) \<and> \<not> isspace (last (str_strip s))"
proof -
  let ?l = "dropWhile isspace s"
  let ?r = "dropWhile isspace (rev ?l)"
  from assms have r: "?r \<noteq> []"
    by (simp add: str_strip_def)
  then have l: "?l \<noteq> []" by (cases ?l) auto
  from r have "\<not> isspace (hd ?r)" by (rule hd_dropWhile)
  with r have last: "\<not> isspace (last (str_strip s))"
    by (simp add: str_strip_def last_rev)
  from l have h: "\<not> isspace (hd ?l)" by (rule hd_dropWhile)
  obtain zs where zs: "rev ?l = takeWhile isspace (rev ?l) @ ?r"
    by simp
  then have "?l = rev ?r @ rev (takeWhile isspace (rev ?l))"
    by (metis rev_append rev_rev_ident)
  with r have "hd ?l = hd (rev ?r)"
    by (metis hd_append2 rev_is_Nil_conv)
  with h have "\<not> isspace (hd (str_strip s))"
    by (simp add: str_strip_def)
  with last show ?thesis by simp
qed

lemma du_ids_of_input_tokens:
  assumes "t \<in> set (du_ids_of_input s)"
  shows "t \<noteq> [] \<and> CHR '','' \<notin> set t \<and> \<not> isspace (hd t) \<and> \<not> isspace (last t)"
proof -
  from assms obtain du where du: "du \<in> set (str_split s CHR '','')" "t = str_strip du" "t \<noteq> []"
    by (auto simp: du_ids_of_input_def)
  from du(1) have "CHR '','' \<notin> set du" by (rule str_split_no_sep)
  with du(2) set_str_strip [of du] have "CHR '','' \<notin> set t" by auto
  moreover from du(2,3) str_strip_ends [of du]
  have "\<not> isspace (hd t) \<and> \<not> isspace (last t)" by simp
  ultimately show ?thesis using du(3) by simp
qed

lemma py_int_examples:
  "py_int ''24'' = Some 24"
  "py_int '' -1_000 '' = Some (- 1000)"
  "py_int [CHR 0xA0, CHR ''7'', CHR 0x85] = Some 7"
  "py_int [CHR 0x1C, CHR ''7''] = None"
  "py_int [CHR ''7'', CHR 0x1F] = None"
  "py_int ''1__0'' = None"
  "py_int ''+ 7'' = None"
  "py_int [] = None"
  by (simp_all add: py_defs)












section \<open>The claims\<close>

text \<open>
  Claim C1. For every identifier list, \<open>fetch_du_status\<close> returns a mapping whose keys
  are the distinct input identifiers in the order of their first occurrence; the value
  of an identifier is the one stored by the request of its last occurrence; every input
  element is requested, in order, whatever the earlier requests gave; and changing the
  outcome of one request changes no entry but that of the identifier it was made for.
\<close>

theorem fetch_du_status_one_entry_per_identifier:
  "map fst (fst (fetch_du_status e c du_ids w)) = first_occurrences du_ids
   \<and> distinct (map fst (fst (fetch_du_status e c du_ids w)))
   \<and> set (map fst (fst (fetch_du_status e c du_ids w))) = set du_ids
   \<and> (\<forall>i. i < length du_ids \<and> (\<forall>j. i < j \<and> j < length du_ids \<longrightarrow> du_ids ! j \<noteq> du_ids ! i)
        \<longrightarrow> map_of (fst (fetch_du_status e c du_ids w)) (du_ids ! i) =
              Some (status_value e c (du_ids ! i) (length (net w) + i)))
   \<and> net (snd (fetch_du_status e c du_ids w)) =
        net w @ map (\<lambda>du_id. HttpGet (status_request c du_id)) du_ids
   \<and> ((\<forall>n. n \<noteq> length (net w) + k \<longrightarrow> requests_get e' n = requests_get e n)
        \<longrightarrow> (\<forall>X. X \<noteq> du_ids ! k
              \<longrightarrow> map_of (fst (fetch_du_status e' c du_ids w)) X =
                   map_of (fst (fetch_du_status e c du_ids w)) X))"
proof (intro conjI allI impI)
  show "map fst (fst (fetch_du_status e c du_ids w)) = first_occurrences du_ids"
    by (rule fetch_du_status_keys)
  show "distinct (map fst (fst (fetch_du_status e c du_ids w)))"
    by (simp only: fetch_du_status_keys distinct_first_occurrences)
  show "set (map fst (fst (fetch_du_status e c du_ids w))) = set du_ids"
    by (simp only: fetch_du_status_keys set_first_occurrences)
  show "net (snd (fetch_du_status e c du_ids w)) =
        net w @ map (\<lambda>du_id. HttpGet (status_request c du_id)) du_ids"
    by (simp add: fetch_du_status_def loop_net)
next
  fix i
  assume "i < length du_ids \<and> (\<forall>j. i < j \<and> j < length du_ids \<longrightarrow> du_ids ! j \<noteq> du_ids ! i)"
  then show "map_of (fst (fetch_du_status e c du_ids w)) (du_ids ! i) =
             Some (status_value e c (du_ids ! i) (length (net w) + i))"
    by (simp add: fetch_du_status_def loop_lookup_last)
next
  fix X
  assume "\<forall>n. n \<noteq> length (net w) + k \<longrightarrow> requests_get e' n = requests_get e n"
    and "X \<noteq> du_ids ! k"
  then show "map_of (fst (fetch_du_status e' c du_ids w)) X =
             map_of (fst (fetch_du_status e c du_ids w)) X"
    by (rule fetch_du_status_isolated)
qed

theorem fetch_du_status_one_entry_per_identifier_witness:
  "map fst (fst (fetch_du_status flaky_env example_closure [''1639'', ''9999'', ''1639''] empty_world))
     = [''1639'', ''9999'']
   \<and> map_of (fst (fetch_du_status flaky_env example_closure [''1639'', ''9999'', ''1639''] empty_world))
       ''1639'' = Some (JObj [(''FIREWALL'', JStr ''inactive'')])
   \<and> map_of (fst (fetch_du_status flaky_env example_closure [''1639'', ''9999'', ''1639''] empty_world))
       ''9999'' = Some (JStr ''Network Error: 500 Server Error'')
   \<and> length (net (snd (fetch_du_status flaky_env example_closure [''1639'', ''9999'', ''1639''] empty_world)))
       = 3
   \<and> map_of (fst (fetch_du_status flaky_env' example_closure [''1639'', ''9999'', ''1639''] empty_world))
       ''1639'' = Some (JObj [(''FIREWALL'', JStr ''inactive'')])"
proof -
  let ?ids = "[''1639'', ''9999'', ''1639'']"
  let ?r = "fst (fetch_du_status flaky_env example_closure ?ids empty_world)"
  note T = fetch_du_status_one_entry_per_identifier
    [of flaky_env example_closure ?ids empty_world 1 flaky_env']
  from T have keys: "map fst ?r = first_occurrences ?ids"
    by (rule conjunct1)
  from T have last: "\<forall>i. i < length ?ids
        \<and> (\<forall>j. i < j \<and> j < length ?ids \<longrightarrow> ?ids ! j \<noteq> ?ids ! i)
        \<longrightarrow> map_of ?r (?ids ! i) =
              Some (status_value flaky_env example_closure (?ids ! i) (length (net empty_world) + i))"
    by blast
  from T have calls: "net (snd (fetch_du_status flaky_env example_closure ?ids empty_world)) =
        net empty_world @ map (\<lambda>du_id. HttpGet (status_request example_closure du_id)) ?ids"
    by blast
  from T have iso: "(\<forall>n. n \<noteq> length (net empty_world) + 1 \<longrightarrow>
           requests_get flaky_env' n = requests_get flaky_env n)
        \<longrightarrow> (\<forall>X. X \<noteq> ?ids ! 1
              \<longrightarrow> map_of (fst (fetch_du_status flaky_env' example_closure ?ids empty_world)) X =
                   map_of ?r X)"
    by blast
  have l2: "(2::nat) < length ?ids \<and> (\<forall>j. 2 < j \<and> j < length ?ids \<longrightarrow> ?ids ! j \<noteq> ?ids ! 2)"
    by simp
  have l1: "(1::nat) < length ?ids \<and> (\<forall>j. 1 < j \<and> j < length ?ids \<longrightarrow> ?ids ! j \<noteq> ?ids ! 1)"
  proof (intro conjI allI impI)
    fix j :: nat
    assume "1 < j \<and> j < length ?ids"
    then have "j = 2" by simp
    then show "?ids ! j \<noteq> ?ids ! 1" by simp
  qed simp
  from last l2 have "map_of ?r (?ids ! 2) =
      Some (status_value flaky_env example_closure (?ids ! 2) (length (net empty_world) + 2))"
    by blast
  then have v2: "map_of ?r ''1639'' = Some (JObj [(''FIREWALL'', JStr ''inactive'')])"
    by (simp add: fetch_defs example_defs)
  from last l1 have "map_of ?r (?ids ! 1) =
      Some (status_value flaky_env example_closure (?ids ! 1) (length (net empty_world) + 1))"
    by blast
  then have v1: "map_of ?r ''9999'' = Some (JStr ''Network Error: 500 Server Error'')"
    by (simp add: fetch_defs example_defs)
  have agree: "\<forall>n. n \<noteq> length (net empty_world) + 1 \<longrightarrow>
           requests_get flaky_env' n = requests_get flaky_env n"
    by (simp add: example_defs fun_eq_iff)
  with iso have "map_of (fst (fetch_du_status flaky_env' example_closure ?ids empty_world)) ''1639'' =
                   map_of ?r ''1639''"
    by simp
  with v2 have v3: "map_of (fst (fetch_du_status flaky_env' example_closure ?ids empty_world)) ''1639''
      = Some (JObj [(''FIREWALL'', JStr ''inactive'')])"
    by simp
  from keys have k: "map fst ?r = [''1639'', ''9999'']" by simp
  from calls have n: "length (net (snd (fetch_du_status flaky_env example_closure ?ids empty_world))) = 3"
    by (simp add: empty_world_def)
  from k v2 v1 n v3 show ?thesis by blast
qed

text \<open>
  Claim C2. For every identifier \<open>X\<close> of the status mapping (a dict, so with distinct
  keys), the collected data built by the rendering loop has an entry for \<open>X\<close> if and only
  if the status of \<open>X\<close> is a dict; the entry then is \<open>{"name": n, "status": s}\<close> with \<open>s\<close>
  that status and \<open>n\<close> the name that \<open>fetch_du_name\<close> returned for \<open>X\<close> in the loop.
\<close>

theorem collected_data_iff_status_is_dict:
  assumes "distinct (map fst statuses)"
    and "i < length statuses"
    and "statuses ! i = (X, status)"
    and "length (net w') = length (net w) + i"
  shows "((\<exists>v. map_of (fst (render_statuses e c statuses [] w)) X = Some v) = is_dict status)
       \<and> (if is_dict status
          then map_of (fst (render_statuses e c statuses [] w)) X =
                 Some (JObj [(''name'', fst (fetch_du_name e c X w')), (''status'', status)])
          else map_of (fst (render_statuses e c statuses [] w)) X = None)"
  using render_statuses_lookup [OF assms(1,2,4), of e c "[]"] assms(3)
  by simp

theorem collected_data_iff_status_is_dict_witness:
  "map_of (fst (render_statuses server_env example_closure
       [(''1639'', JObj [(''BIFLOW'', JStr ''active'')]),
        (''9999'', JStr ''Network Error: 500 Server Error'')] [] empty_world)) ''1639''
     = Some (JObj [(''name'', JStr ''Router-A''),
                   (''status'', JObj [(''BIFLOW'', JStr ''active'')])])
   \<and> map_of (fst (render_statuses server_env example_closure
       [(''1639'', JObj [(''BIFLOW'', JStr ''active'')]),
        (''9999'', JStr ''Network Error: 500 Server Error'')] [] empty_world)) ''9999''
     = None"
proof -
  let ?st = "[(''1639'', JObj [(''BIFLOW'', JStr ''active'')]),
              (''9999'', JStr ''Network Error: 500 Server Error'')]"
  have d: "distinct (map fst ?st)" by simp
  have n0: "length (net empty_world) = length (net empty_world) + 0" by simp
  have n1: "length (net (call (HttpGet (name_request example_closure ''1639'')) empty_world))
              = length (net empty_world) + 1"
    by (simp add: net_call)
  have name: "fst (fetch_du_name server_env example_closure ''1639'' empty_world) = JStr ''Router-A''"
    by (simp add: fetch_defs example_defs py_defs Let_def)
  from collected_data_iff_status_is_dict
    [of ?st 0 "''1639''" "JObj [(''BIFLOW'', JStr ''active'')]" empty_world empty_world
        server_env example_closure, OF d _ _ n0]
  have a: "map_of (fst (render_statuses server_env example_closure ?st [] empty_world)) ''1639''
     = Some (JObj [(''name'', JStr ''Router-A''),
                   (''status'', JObj [(''BIFLOW'', JStr ''active'')])])"
    by (simp add: name)
  from collected_data_iff_status_is_dict
    [of ?st 1 "''9999''" "JStr ''Network Error: 500 Server Error''"
        "call (HttpGet (name_request example_closure ''1639'')) empty_world" empty_world
        server_env example_closure, OF d _ _ n1]
  have b: "map_of (fst (render_statuses server_env example_closure ?st [] empty_world)) ''9999''
     = None"
    by simp
  from a b show ?thesis by blast
qed

text \<open>
  Claim C3. The identifier list computed from the input is the list of the
  specification: the input split on commas, each token trimmed, the empty tokens
  dropped, order and duplicates kept; the input \<open>"1639, 2092"\<close> gives \<open>["1639", "2092"]\<close>;
  and when the input passes the validation, the click issues one status request per
  element of that list, in order, before any other network call.
\<close>

theorem identifier_list_is_trimmed_split:
  "du_ids_of_input s = spec_identifier_list s
   \<and> du_ids_of_input ''1639, 2092'' = [''1639'', ''2092'']
   \<and> (str_strip s \<noteq> [] \<longrightarrow>
        (\<exists>later. net (on_click e c s w) =
           net w @ map (\<lambda>du_id. HttpGet (status_request c du_id)) (spec_identifier_list s)
                 @ later))"
proof (intro conjI impI)
  show "du_ids_of_input s = spec_identifier_list s"
    by (rule du_ids_of_input_eq_spec)
  show "du_ids_of_input ''1639, 2092'' = [''1639'', ''2092'']"
    by (simp add: du_ids_of_input_def str_strip_def isspace_def)
next
  assume ne: "str_strip s \<noteq> []"
  obtain collected w3 where f: "fetch_and_render e c s w = (collected, w3)"
    by (cases "fetch_and_render e c s w")
  have n3: "net w3 =
     net w @ map (\<lambda>du_id. HttpGet (status_request c du_id)) (spec_identifier_list s)
           @ map (\<lambda>du_id. HttpGet (name_request c du_id)) (first_occurrences (du_ids_of_input s))"
    using net_fetch_and_render [of e c s w] f by (simp add: du_ids_of_input_eq_spec)
  show "\<exists>later. net (on_click e c s w) =
           net w @ map (\<lambda>du_id. HttpGet (status_request c du_id)) (spec_identifier_list s)
                 @ later"
  proof (cases "collected = []")
    case True
    with ne f n3 show ?thesis
      by (simp add: on_click_def)
  next
    case False
    with ne f n3 show ?thesis
      by (simp add: on_click_def Let_def case_prod_beta net_emit net_analyze_with_gpt)
  qed
qed

theorem identifier_list_is_trimmed_split_witness:
  "str_strip ''1639, 2092'' \<noteq> []
   \<and> spec_identifier_list ''1639, 2092'' = [''1639'', ''2092'']
   \<and> take 2 (net (on_click server_env example_closure ''1639, 2092'' empty_world)) =
       [HttpGet (status_request example_closure ''1639''),
        HttpGet (status_request example_closure ''2092'')]"
proof -
  note T = identifier_list_is_trimmed_split
    [of "''1639, 2092''" server_env example_closure empty_world]
  have ne: "str_strip ''1639, 2092'' \<noteq> []"
    by (simp add: py_defs)
  from T have "du_ids_of_input ''1639, 2092'' = spec_identifier_list ''1639, 2092''"
    and "du_ids_of_input ''1639, 2092'' = [''1639'', ''2092'']"
    by blast+
  then have ids: "spec_identifier_list ''1639, 2092'' = [''1639'', ''2092'']"
    by simp
  from T ne obtain later where
    "net (on_click server_env example_closure ''1639, 2092'' empty_world) =
       net empty_world
       @ map (\<lambda>du_id. HttpGet (status_request example_closure du_id))
           (spec_identifier_list ''1639, 2092'')
       @ later"
    by blast
  then have "take 2 (net (on_click server_env example_closure ''1639, 2092'' empty_world)) =
       [HttpGet (status_request example_closure ''1639''),
        HttpGet (status_request example_closure ''2092'')]"
    by (simp add: ids empty_world_def)
  with ne ids show ?thesis by blast
qed

text \<open>
  Claim C4. A click adds a chat completion call exactly when the input passes the
  validation and the collected data built by the rendering is not empty; the call is
  made once, with that collected data, so never with an empty mapping.
\<close>

theorem summarizer_invoked_iff_collected_nonempty:
  "chat_data (net (on_click e c du_input w)) =
     chat_data (net w) @
       (if str_strip du_input \<noteq> [] \<and> fst (fetch_and_render e c du_input w) \<noteq> []
        then [fst (fetch_and_render e c du_input w)] else [])"
proof -
  obtain collected w3 where f: "fetch_and_render e c du_input w = (collected, w3)"
    by (cases "fetch_and_render e c du_input w")
  have c3: "chat_data (net w3) = chat_data (net w)"
    using chat_data_fetch_and_render [of e c du_input w] f by simp
  show ?thesis
    by (simp add: on_click_def f Let_def case_prod_beta net_emit net_analyze_with_gpt
          chat_data_append c3)
qed

theorem summarizer_invoked_iff_collected_nonempty_witness:
  "chat_data (net (on_click server_env example_closure ''1639, 9999'' empty_world)) =
     [[(''1639'', JObj [(''name'', JStr ''Router-A''),
                        (''status'', JObj [(''BIFLOW'', JStr ''active'')])])]]
   \<and> chat_data (net (on_click server_env example_closure ''9999'' empty_world)) = []
   \<and> chat_data (net (on_click server_env example_closure '' '' empty_world)) = []"
proof -
  have s1: "str_strip ''1639, 9999'' \<noteq> []" and s2: "str_strip ''9999'' \<noteq> []"
    and s3: "str_strip '' '' = []"
    by (simp_all add: py_defs)
  have f1: "fst (fetch_and_render server_env example_closure ''1639, 9999'' empty_world) =
     [(''1639'', JObj [(''name'', JStr ''Router-A''),
                       (''status'', JObj [(''BIFLOW'', JStr ''active'')])])]"
    by (simp add: run_defs fetch_defs example_defs py_defs Let_def)
  have f2: "fst (fetch_and_render server_env example_closure ''9999'' empty_world) = []"
    by (simp add: run_defs fetch_defs example_defs py_defs Let_def)
  have e: "chat_data (net empty_world) = []"
    by (simp add: empty_world_def)
  from summarizer_invoked_iff_collected_nonempty
         [of server_env example_closure "''1639, 9999''" empty_world] s1 f1 e
  have a: "chat_data (net (on_click server_env example_closure ''1639, 9999'' empty_world)) =
     [[(''1639'', JObj [(''name'', JStr ''Router-A''),
                        (''status'', JObj [(''BIFLOW'', JStr ''active'')])])]]"
    by simp
  from summarizer_invoked_iff_collected_nonempty
         [of server_env example_closure "''9999''" empty_world] s2 f2 e
  have b: "chat_data (net (on_click server_env example_closure ''9999'' empty_world)) = []"
    by simp
  from summarizer_invoked_iff_collected_nonempty
         [of server_env example_closure "'' ''" empty_world] s3 e
  have c: "chat_data (net (on_click server_env example_closure '' '' empty_world)) = []"
    by simp
  from a b c show ?thesis by blast
qed

text \<open>
  Claim C5. Whenever a name lookup fails (the request, the status check or the JSON
  decoding raises, or the body is not an object), \<open>fetch_du_name\<close> returns one of the two
  strings \<open>"Unknown DU Name"\<close> and \<open>"Error fetching name"\<close>: the first after a
  \<open>RequestException\<close> (with a warning), the second after any other exception (with an
  error message). In every case the function returns a value to its caller.
\<close>

theorem fetch_du_name_failure_yields_sentinel:
  "(name_lookup_fails e c du_id (length (net w)) \<longrightarrow>
      fst (fetch_du_name e c du_id w) = JStr ''Unknown DU Name''
      \<or> fst (fetch_du_name e c du_id w) = JStr ''Error fetching name'')
   \<and> (\<forall>m. fetch_du_name_try e c du_id (length (net w)) = Inl (RequestException m) \<longrightarrow>
         fetch_du_name e c du_id w =
           (JStr ''Unknown DU Name'',
            emit (StWarning (''Network error fetching DU name: '' @ m))
              (call (HttpGet (name_request c du_id)) w)))
   \<and> (\<forall>x. fetch_du_name_try e c du_id (length (net w)) = Inl x
           \<and> (\<forall>m. x \<noteq> RequestException m) \<longrightarrow>
         fetch_du_name e c du_id w =
           (JStr ''Error fetching name'',
            emit (StError [Lit (''Error fetching DU name: '' @ exc_str x)])
              (call (HttpGet (name_request c du_id)) w)))
   \<and> (name_lookup_fails e c du_id (length (net w)) =
        (\<exists>x. fetch_du_name_try e c du_id (length (net w)) = Inl x))
   \<and> (\<forall>name. fetch_du_name_try e c du_id (length (net w)) = Inr name \<longrightarrow>
         fetch_du_name e c du_id w = (name, call (HttpGet (name_request c du_id)) w))"
proof -
  have fails: "name_lookup_fails e c du_id (length (net w)) =
        (\<exists>x. fetch_du_name_try e c du_id (length (net w)) = Inl x)"
    by (cases "requests_get e (length (net w)) (name_request c du_id)")
       (auto simp: name_lookup_fails_def fetch_du_name_try_def
             split: option.splits sum.splits json.splits)
  have sentinel: "\<And>x. fetch_du_name_try e c du_id (length (net w)) = Inl x \<Longrightarrow>
      fst (fetch_du_name e c du_id w) = JStr ''Unknown DU Name''
      \<or> fst (fetch_du_name e c du_id w) = JStr ''Error fetching name''"
    by (simp add: fetch_du_name_def Let_def split: exc.splits)
  show ?thesis
  proof (intro conjI allI impI)
    assume "name_lookup_fails e c du_id (length (net w))"
    with fails obtain x where "fetch_du_name_try e c du_id (length (net w)) = Inl x"
      by blast
    then show "fst (fetch_du_name e c du_id w) = JStr ''Unknown DU Name''
      \<or> fst (fetch_du_name e c du_id w) = JStr ''Error fetching name''"
      by (rule sentinel)
  next
    fix m
    assume "fetch_du_name_try e c du_id (length (net w)) = Inl (RequestException m)"
    then show "fetch_du_name e c du_id w =
           (JStr ''Unknown DU Name'',
            emit (StWarning (''Network error fetching DU name: '' @ m))
              (call (HttpGet (name_request c du_id)) w))"
      by (simp add: fetch_du_name_def Let_def)
  next
    fix x
    assume "fetch_du_name_try e c du_id (length (net w)) = Inl x
           \<and> (\<forall>m. x \<noteq> RequestException m)"
    then show "fetch_du_name e c du_id w =
           (JStr ''Error fetching name'',
            emit (StError [Lit (''Error fetching DU name: '' @ exc_str x)])
              (call (HttpGet (name_request c du_id)) w))"
      by (cases x) (simp_all add: fetch_du_name_def Let_def)
  next
    show "name_lookup_fails e c du_id (length (net w)) =
        (\<exists>x. fetch_du_name_try e c du_id (length (net w)) = Inl x)"
      by (rule fails)
  next
    fix name
    assume "fetch_du_name_try e c du_id (length (net w)) = Inr name"
    then show "fetch_du_name e c du_id w = (name, call (HttpGet (name_request c du_id)) w)"
      by (simp add: fetch_du_name_def Let_def)
  qed
qed

theorem fetch_du_name_failure_yields_sentinel_witness:
  "fst (fetch_du_name server_env example_closure ''7'' empty_world) = JStr ''Unknown DU Name''
   \<and> fst (fetch_du_name server_env example_closure ''2092'' empty_world) = JStr ''Error fetching name''
   \<and> fst (fetch_du_name server_env example_closure ''1639'' empty_world) = JStr ''Router-A''"
proof -
  note T7 = fetch_du_name_failure_yields_sentinel [of server_env example_closure "''7''" empty_world]
  note T2 = fetch_du_name_failure_yields_sentinel [of server_env example_closure "''2092''" empty_world]
  note T1 = fetch_du_name_failure_yields_sentinel [of server_env example_closure "''1639''" empty_world]
  have "fetch_du_name_try server_env example_closure ''7'' (length (net empty_world))
          = Inl (RequestException ''Read timed out'')"
    by (simp add: fetch_defs example_defs)
  with T7 have a: "fst (fetch_du_name server_env example_closure ''7'' empty_world)
      = JStr ''Unknown DU Name''"
    by simp
  have "fetch_du_name_try server_env example_closure ''2092'' (length (net empty_world))
          = Inl (OtherException (quoted ''list'' @ '' object has no attribute '' @ quoted ''get''))
        \<and> (\<forall>m. OtherException (quoted ''list'' @ '' object has no attribute '' @ quoted ''get'')
                \<noteq> RequestException m)"
    by (simp add: fetch_defs example_defs)
  with T2 have b: "fst (fetch_du_name server_env example_closure ''2092'' empty_world)
      = JStr ''Error fetching name''"
    by simp
  have "fetch_du_name_try server_env example_closure ''1639'' (length (net empty_world))
          = Inr (JStr ''Router-A'')"
    by (simp add: fetch_defs example_defs py_defs)
  with T1 have c: "fst (fetch_du_name server_env example_closure ''1639'' empty_world)
      = JStr ''Router-A''"
    by simp
  from a b c show ?thesis by blast
qed




text \<open>
  Claim C7. When the input is empty or consists of whitespace only, a click shows the
  validation error and does nothing else: no network call is made.
\<close>

theorem blank_input_is_rejected:
  assumes "\<forall>ch \<in> set du_input. isspace ch"
  shows "on_click e c du_input w = emit (StError [Lit ''Please enter at least one DU ID.'']) w
       \<and> ui (on_click e c du_input w) = ui w @ [StError [Lit ''Please enter at least one DU ID.'']]
       \<and> net (on_click e c du_input w) = net w"
proof -
  from assms have "str_strip du_input = []"
    by (simp add: str_strip_empty_iff)
  then show ?thesis
    by (simp add: on_click_def net_emit ui_emit)
qed

theorem blank_input_is_rejected_witness:
  "isspace (CHR '' '') \<and> isspace (CHR 0x09)
   \<and> on_click server_env example_closure [CHR '' '', CHR 0x09, CHR '' ''] empty_world =
        \<lparr>ui = [StError [Lit ''Please enter at least one DU ID.'']], net = []\<rparr>"
proof -
  have s: "isspace (CHR '' '') \<and> isspace (CHR 0x09)"
    by (simp add: isspace_def)
  then have b: "\<forall>ch \<in> set [CHR '' '', CHR 0x09, CHR '' '']. isspace ch"
    by simp
  from blank_input_is_rejected [OF b, of server_env example_closure empty_world]
  have "on_click server_env example_closure [CHR '' '', CHR 0x09, CHR '' ''] empty_world =
        \<lparr>ui = [StError [Lit ''Please enter at least one DU ID.'']], net = []\<rparr>"
    by (simp add: emit_def empty_world_def)
  with s show ?thesis by blast
qed

text \<open>
  Claim C8, as amended. A required variable that is unset or empty makes
  \<open>get_env_variable\<close> show the message naming it and stop the run. \<open>init_config\<close> reads
  \<open>OPENAI_API_KEY\<close> first and \<open>BASE_URL\<close> second and stops at the first of them that is
  missing, with the message naming that one: a missing \<open>BASE_URL\<close> is named only when
  \<open>OPENAI_API_KEY\<close> is present. \<open>main\<close> does nothing after the stop, and a configuration
  is returned only with both values present and not empty. The theorem that follows
  evaluates \<open>init_config\<close> with both variables unset: no message names \<open>BASE_URL\<close>.
\<close>

theorem missing_required_variable_halts:
  "(unset_or_empty e var_name \<longrightarrow>
      get_env_variable e var_name w =
        (Inl StopException, emit (StError [Lit (missing_message var_name)]) w))
   \<and> (unset_or_empty e ''OPENAI_API_KEY'' \<longrightarrow>
        init_config e w =
          (Inl StopException,
           emit (StError [Lit (missing_message ''OPENAI_API_KEY'')]) (emit page_config w)))
   \<and> (\<not> unset_or_empty e ''OPENAI_API_KEY'' \<and> unset_or_empty e ''BASE_URL'' \<longrightarrow>
        init_config e w =
          (Inl StopException,
           emit (StError [Lit (missing_message ''BASE_URL'')]) (emit page_config w)))
   \<and> (unset_or_empty e ''OPENAI_API_KEY'' \<or> unset_or_empty e ''BASE_URL'' \<longrightarrow>
        main e du_input clicked w = (Some StopException, snd (init_config e w)))
   \<and> (\<forall>config. fst (init_config e w) = Inr config \<longrightarrow>
        environ e ''OPENAI_API_KEY'' = Some (OPENAI_API_KEY config)
        \<and> OPENAI_API_KEY config \<noteq> []
        \<and> environ e ''BASE_URL'' = Some (BASE_URL config)
        \<and> BASE_URL config \<noteq> [])"
proof (intro conjI allI impI)
  assume "unset_or_empty e var_name"
  then show "get_env_variable e var_name w =
        (Inl StopException, emit (StError [Lit (missing_message var_name)]) w)"
    by (rule get_env_variable_missing)
next
  assume "unset_or_empty e ''OPENAI_API_KEY''"
  then show "init_config e w =
          (Inl StopException,
           emit (StError [Lit (missing_message ''OPENAI_API_KEY'')]) (emit page_config w))"
    by (rule init_config_no_key)
next
  assume "\<not> unset_or_empty e ''OPENAI_API_KEY'' \<and> unset_or_empty e ''BASE_URL''"
  then show "init_config e w =
          (Inl StopException,
           emit (StError [Lit (missing_message ''BASE_URL'')]) (emit page_config w))"
    by (simp add: init_config_no_base)
next
  assume "unset_or_empty e ''OPENAI_API_KEY'' \<or> unset_or_empty e ''BASE_URL''"
  then show "main e du_input clicked w = (Some StopException, snd (init_config e w))"
    by (cases "unset_or_empty e ''OPENAI_API_KEY''")
       (auto simp: main_def init_config_no_key init_config_no_base)
next
  fix config
  assume r: "fst (init_config e w) = Inr config"
  from init_config_returns [OF r]
  show "environ e ''OPENAI_API_KEY'' = Some (OPENAI_API_KEY config)" by simp
  from init_config_returns [OF r]
  show "OPENAI_API_KEY config \<noteq> []" by (auto simp: unset_or_empty_def)
  from init_config_returns [OF r]
  show "environ e ''BASE_URL'' = Some (BASE_URL config)" by simp
  from init_config_returns [OF r]
  show "BASE_URL config \<noteq> []" by (auto simp: unset_or_empty_def)
qed

theorem both_missing_names_only_api_key:
  "unset_or_empty both_missing_env ''BASE_URL''
   \<and> init_config both_missing_env empty_world =
       (Inl StopException,
        \<lparr>ui = [page_config, StError [Lit (missing_message ''OPENAI_API_KEY'')]], net = []\<rparr>)
   \<and> StError [Lit (missing_message ''BASE_URL'')]
       \<notin> set (ui (snd (init_config both_missing_env empty_world)))"
  by (simp add: unset_or_empty_def init_config_def get_env_variable_def Let_def emit_def
        example_defs missing_message_def page_config_def)

theorem missing_required_variable_halts_witness:
  "init_config no_key_env empty_world =
     (Inl StopException,
      \<lparr>ui = [page_config, StError [Lit (missing_message ''OPENAI_API_KEY'')]], net = []\<rparr>)
   \<and> init_config empty_base_env empty_world =
     (Inl StopException,
      \<lparr>ui = [page_config, StError [Lit (missing_message ''BASE_URL'')]], net = []\<rparr>)
   \<and> main empty_base_env ''1639'' True empty_world =
     (Some StopException,
      \<lparr>ui = [page_config, StError [Lit (missing_message ''BASE_URL'')]], net = []\<rparr>)
   \<and> missing_message ''BASE_URL'' =
       ''Missing BASE_URL environment variable. Please set it in Streamlit Cloud.''"
proof -
  note N = missing_required_variable_halts [of no_key_env "''OPENAI_API_KEY''" empty_world "''1639''" True]
  note B = missing_required_variable_halts [of empty_base_env "''BASE_URL''" empty_world "''1639''" True]
  have n: "unset_or_empty no_key_env ''OPENAI_API_KEY''"
    by (simp add: unset_or_empty_def example_defs)
  have b: "\<not> unset_or_empty empty_base_env ''OPENAI_API_KEY''
           \<and> unset_or_empty empty_base_env ''BASE_URL''"
    by (simp add: unset_or_empty_def example_defs)
  from N n have 1: "init_config no_key_env empty_world =
     (Inl StopException,
      emit (StError [Lit (missing_message ''OPENAI_API_KEY'')]) (emit page_config empty_world))"
    by blast
  from B b have 2: "init_config empty_base_env empty_world =
     (Inl StopException,
      emit (StError [Lit (missing_message ''BASE_URL'')]) (emit page_config empty_world))"
    by blast
  from B b have 3: "main empty_base_env ''1639'' True empty_world =
     (Some StopException, snd (init_config empty_base_env empty_world))"
    by blast
  have 4: "missing_message ''BASE_URL'' =
       ''Missing BASE_URL environment variable. Please set it in Streamlit Cloud.''"
    by (simp add: missing_message_def)
  from 1 2 3 4 show ?thesis
    by (simp add: emit_def empty_world_def)
qed




text \<open>
  Claim C10. On the empty identifier list \<open>fetch_du_status\<close> returns the empty mapping and
  leaves the world as it is: no HTTP request is issued.
\<close>

theorem fetch_du_status_empty:
  "fetch_du_status e c [] w = ([], w)"
  by (simp add: fetch_du_status_def)

theorem fetch_du_status_empty_witness:
  "fetch_du_status server_env example_closure [] empty_world = ([], empty_world)"
  by (rule fetch_du_status_empty)

end
